theory Spec2Isabelle
  imports Main
begin

section \<open>The syntax tree\<close>

text \<open>
  The parser of \<^verbatim>\<open>src/parser.cpp\<close> builds loosely typed JSON values out of small structs,
  one per node family. A node is a value of the datatype \<open>node\<close>: \<open>Null\<close> is the JSON
  null (\<^verbatim>\<open>nullptr\<close>, a default constructed \<^verbatim>\<open>json\<close>), \<open>Arr\<close> a JSON array, and every
  other constructor one struct with its fields in the order given in the comment.
  A \<open>kind\<close> that the code computes by string concatenation is kept as a string.
\<close>

datatype ctype = Type int "string list" string
  \<comment> \<open>position, modifiers, name; the kind is always \<^verbatim>\<open>"Type"\<close>\<close>

datatype node =
    Null
  | Arr "node list"
  | Identifier int string
      \<comment> \<open>position, name\<close>
  | Literal string int string
      \<comment> \<open>kind, position, value\<close>
  | ArrayLiteral int node
      \<comment> \<open>position, value\<close>
  | BinaryExpression int string node node
      \<comment> \<open>position, op, left, right\<close>
  | IndexExpression int node node
      \<comment> \<open>position, array, indexes\<close>
  | CallExpression int node node
      \<comment> \<open>position, callee, arguments\<close>
  | ParenthesesExpression int node
      \<comment> \<open>position, expression\<close>
  | IfStatement int node node node
      \<comment> \<open>position, condition, body, elseBody\<close>
  | WhileStatement string int node node
      \<comment> \<open>kind, position, condition, body\<close>
  | ForStatement int node node node node
      \<comment> \<open>position, init, condition, step, body\<close>
  | ReturnStatement int node
      \<comment> \<open>position, value\<close>
  | InterruptStatement string int node
      \<comment> \<open>kind, position, label\<close>
  | ExpressionStatement int node
      \<comment> \<open>position, expression\<close>
  | BodyStatement string int node
      \<comment> \<open>kind, position, body\<close>
  | DeclarationNode string int node ctype
      \<comment> \<open>kind, position, identifier, type\<close>
  | Definition string int node ctype node node
      \<comment> \<open>kind, position, identifier, type, length, value\<close>
  | FunctionDeclaration int node ctype node
      \<comment> \<open>position, identifier, type, parameters\<close>
  | FunctionDefinition int node ctype node node
      \<comment> \<open>position, identifier, type, parameters, body\<close>
  | IncludeStatement int string
      \<comment> \<open>position, file\<close>
  | PredefineStatement int node node node
      \<comment> \<open>position, identifier, arguments, value\<close>
  | Comment string int string
      \<comment> \<open>kind, position, content\<close>
  | Program node
      \<comment> \<open>body\<close>

text \<open>The struct \<^verbatim>\<open>Declaration\<close> that \<^verbatim>\<open>parseDeclaration\<close> returns by value.\<close>

datatype decl = Declaration string int node ctype
  \<comment> \<open>kind, position, identifier, type\<close>

text \<open>
  \<^verbatim>\<open>json::push_back\<close>: a null value becomes an array first. The parser calls it on
  null values and arrays only.
\<close>

fun push_back :: "node \<Rightarrow> node \<Rightarrow> node" where
  "push_back Null x = Arr [x]"
| "push_back (Arr xs) x = Arr (xs @ [x])"
| "push_back j x = j"

fun is_null :: "node \<Rightarrow> bool" where
  "is_null Null = True"
| "is_null j = False"

text \<open>\<^verbatim>\<open>json::empty\<close>: true of null and of the empty array.\<close>

fun empty_json :: "node \<Rightarrow> bool" where
  "empty_json Null = True"
| "empty_json (Arr xs) = (xs = [])"
| "empty_json j = False"

section \<open>Outcomes\<close>

text \<open>
  A member function of the parser either returns, or throws a \<^verbatim>\<open>runtime_error\<close> with a
  message (nothing in the parser catches it), or touches \<^verbatim>\<open>source\<close> past its end.
  \<^verbatim>\<open>source[i]\<close> is defined for \<open>i \<le> size\<close> (the character at \<open>size\<close> is NUL) and is
  undefined behaviour beyond; \<^verbatim>\<open>source.replace\<close> at a position beyond \<open>size\<close> throws
  \<^verbatim>\<open>std::out_of_range\<close>. Both are the outcome \<open>OutOfRange\<close>. Recursion and loops are
  bounded by a fuel argument; \<open>OutOfFuel\<close> says the bound was reached, and nothing else.
\<close>

datatype 'a outcome = Ok 'a | Throw string | OutOfRange | OutOfFuel

definition andThen :: "'a outcome \<Rightarrow> ('a \<Rightarrow> 'b outcome) \<Rightarrow> 'b outcome" where
  "andThen m f = (case m of Ok x \<Rightarrow> f x | Throw e \<Rightarrow> Throw e
                   | OutOfRange \<Rightarrow> OutOfRange | OutOfFuel \<Rightarrow> OutOfFuel)"

section \<open>Characters\<close>

definition NUL :: char where "NUL = CHR 0x00"
definition newline :: char where "newline = CHR 0x0A"
definition quote :: char where "quote = CHR 0x27"
definition dquote :: char where "dquote = CHR 0x22"
definition backslash :: char where "backslash = CHR 0x5C"

definition charCode :: "char \<Rightarrow> nat" where
  "charCode c = of_char c"

definition isDigit :: "char \<Rightarrow> bool" where
  "isDigit c = (48 \<le> charCode c \<and> charCode c \<le> 57)"

definition isLower :: "char \<Rightarrow> bool" where
  "isLower c = (97 \<le> charCode c \<and> charCode c \<le> 122)"

definition isUpper :: "char \<Rightarrow> bool" where
  "isUpper c = (65 \<le> charCode c \<and> charCode c \<le> 90)"

definition tolower :: "char \<Rightarrow> char" where
  "tolower c = (if isUpper c then char_of (charCode c + 32) else c)"

text \<open>
  Modelled from the spec: the character classifiers \<^verbatim>\<open>isSpace\<close>, \<^verbatim>\<open>isFloat\<close>, \<^verbatim>\<open>isHex\<close>,
  \<^verbatim>\<open>isOct\<close>, \<^verbatim>\<open>isIdentifierStart\<close>, \<^verbatim>\<open>isIdentifierBody\<close>, \<^verbatim>\<open>isIllegal\<close> and \<^verbatim>\<open>isIdentifier\<close>
  are declared in \<^verbatim>\<open>parser.hpp\<close>, which is not among the sources. The spec gives:
  an identifier begins with \<^verbatim>\<open>[A-Za-z_]\<close> and continues with \<^verbatim>\<open>[A-Za-z0-9_]\<close>; a number
  is made of float digits or \<^verbatim>\<open>.\<close>; a character is illegal when it is non-printable,
  non-space or non-ASCII. The NUL that ends the buffer is read by \<^verbatim>\<open>next\<close> at the end of
  every input, so it is not illegal.
\<close>

definition isSpace :: "char \<Rightarrow> bool" where
  "isSpace c = (c = CHR '' '' \<or> (9 \<le> charCode c \<and> charCode c \<le> 13))"

definition isFloat :: "char \<Rightarrow> bool" where
  "isFloat c = (isDigit c \<or> c = CHR ''.'')"

definition isHex :: "char \<Rightarrow> bool" where
  "isHex c = (isDigit c \<or> (97 \<le> charCode c \<and> charCode c \<le> 102) \<or> (65 \<le> charCode c \<and> charCode c \<le> 70))"

definition isOct :: "char \<Rightarrow> bool" where
  "isOct c = (48 \<le> charCode c \<and> charCode c \<le> 55)"

definition isIdentifierStart :: "char \<Rightarrow> bool" where
  "isIdentifierStart c = (isLower c \<or> isUpper c \<or> c = CHR ''_'')"

definition isIdentifierBody :: "char \<Rightarrow> bool" where
  "isIdentifierBody c = (isIdentifierStart c \<or> isDigit c)"

definition isIllegal :: "char \<Rightarrow> bool" where
  "isIllegal c = (c \<noteq> NUL \<and> \<not> isSpace c \<and> \<not> (32 \<le> charCode c \<and> charCode c \<le> 126))"

definition isIdentifier :: "string \<Rightarrow> bool" where
  "isIdentifier s = (case s of [] \<Rightarrow> False
                     | c # cs \<Rightarrow> isIdentifierStart c \<and> list_all isIdentifierBody cs)"

text \<open>\<^verbatim>\<open>std::to_string\<close> of an \<^verbatim>\<open>int\<close>.\<close>

fun digitsOf :: "nat \<Rightarrow> string" where
  "digitsOf n = (if n < 10 then [char_of (48 + n)]
                 else digitsOf (n div 10) @ [char_of (48 + n mod 10)])"

declare digitsOf.simps [simp del]

definition to_string :: "int \<Rightarrow> string" where
  "to_string i = (if i < 0 then CHR ''-'' # digitsOf (nat (- i)) else digitsOf (nat i))"

section \<open>The parser's state\<close>

text \<open>
  The members of \<^verbatim>\<open>class Parser\<close> that the member functions read and write. \<open>index\<close> and
  \<open>lineNumber\<close> are C++ \<^verbatim>\<open>int\<close>s; they only grow by one per character read, so they stay
  far from the wrap-around on every input that fits in memory, and are integers here.
  Modelled from the spec: the tables \<open>typeModifiers\<close>, \<open>typeNames\<close>, \<open>operators\<close>,
  \<open>precedence\<close> and \<open>escapes\<close> are declared in \<^verbatim>\<open>parser.hpp\<close>; they are taken as
  fields of the state, so that every function is defined for any configuration.
  \<open>precedence\<close> is a table from operator to level, \<open>escapes\<close> the characters that may
  follow a backslash.
\<close>

record parser =
  source :: string
  curr :: char
  lineNumber :: int
  index :: int
  comments :: "node list"
  typeModifiers :: "string list"
  typeNames :: "string list"
  operators :: "string list"
  precedence :: "(string \<times> int) list"
  escapes :: string

text \<open>\<^verbatim>\<open>source[i]\<close>: \<open>None\<close> where the C++ is undefined.\<close>

definition charAt :: "string \<Rightarrow> int \<Rightarrow> char option" where
  "charAt s i = (if 0 \<le> i \<and> i < int (length s) then Some (s ! nat i)
                 else if i = int (length s) then Some NUL else None)"

text \<open>\<^verbatim>\<open>index = i; curr = source[index];\<close>\<close>

definition seek :: "int \<Rightarrow> parser \<Rightarrow> parser outcome" where
  "seek i st = (case charAt (source st) i of
                  None \<Rightarrow> OutOfRange
                | Some c \<Rightarrow> Ok (st\<lparr>index := i, curr := c\<rparr>))"

text \<open>\<^verbatim>\<open>if (curr == '\n') lineNumber++; index++; curr = source[index];\<close>\<close>

definition advance :: "parser \<Rightarrow> parser outcome" where
  "advance st =
     seek (index st + 1)
       (if curr st = newline then st\<lparr>lineNumber := lineNumber st + 1\<rparr> else st)"

definition unexpected :: "parser \<Rightarrow> string \<Rightarrow> string" where
  "unexpected st expected =
     ''Line number '' @ to_string (lineNumber st) @ '': Expect '' @ expected"

text \<open>The constructor: \<^verbatim>\<open>source(move(src)), curr(), lineNumber(1), index(-1)\<close>.\<close>

definition Parser ::
  "string list \<Rightarrow> string list \<Rightarrow> string list \<Rightarrow> (string \<times> int) list \<Rightarrow> string
     \<Rightarrow> string \<Rightarrow> parser" where
  "Parser mods names ops prec esc src =
     \<lparr>source = src, curr = NUL, lineNumber = 1, index = - 1, comments = [],
      typeModifiers = mods, typeNames = names, operators = ops, precedence = prec,
      escapes = esc\<rparr>"

section \<open>The cursor\<close>

text \<open>
  \<^verbatim>\<open>next\<close>, \<^verbatim>\<open>parseComment\<close>, \<^verbatim>\<open>lookahead\<close> and \<^verbatim>\<open>skipSpaces\<close> call each other. Every
  function of the block takes the fuel first; its loops are functions of their own:
  \<open>spaceLoop\<close> is the inner \<^verbatim>\<open>while\<close> of \<^verbatim>\<open>next\<close>, \<open>nextLoop\<close> its \<^verbatim>\<open>do ... while (skipped)\<close>,
  \<open>blockLoop\<close> and \<open>inlineLoop\<close> the two loops of \<^verbatim>\<open>parseComment\<close>, \<open>matchLoop\<close> the
  \<^verbatim>\<open>for (char ch: str)\<close> of \<^verbatim>\<open>lookahead\<close>, which answers \<open>False\<close> after restoring the
  cursor on a mismatch.
\<close>

fun spaceLoop :: "nat \<Rightarrow> parser \<Rightarrow> parser outcome" where
  "spaceLoop 0 st = OutOfFuel"
| "spaceLoop (Suc n) st =
     (if curr st \<noteq> NUL \<and> isSpace (curr st)
      then andThen (advance st) (spaceLoop n)
      else Ok st)"

function (sequential) next' :: "nat \<Rightarrow> bool \<Rightarrow> bool \<Rightarrow> parser \<Rightarrow> parser outcome"
and nextLoop :: "nat \<Rightarrow> bool \<Rightarrow> bool \<Rightarrow> parser \<Rightarrow> parser outcome"
and parseComment :: "nat \<Rightarrow> parser \<Rightarrow> (node \<times> parser) outcome"
and blockLoop :: "nat \<Rightarrow> string \<Rightarrow> parser \<Rightarrow> (string \<times> parser) outcome"
and inlineLoop :: "nat \<Rightarrow> string \<Rightarrow> parser \<Rightarrow> (string \<times> parser) outcome"
and lookahead :: "nat \<Rightarrow> string \<Rightarrow> bool \<Rightarrow> parser \<Rightarrow> (bool \<times> parser) outcome"
and matchLoop :: "nat \<Rightarrow> int \<Rightarrow> string \<Rightarrow> parser \<Rightarrow> (bool \<times> parser) outcome"
and skipSpaces :: "nat \<Rightarrow> parser \<Rightarrow> parser outcome"
where
  "next' 0 withSpaces withComment st = OutOfFuel"
| "next' (Suc n) withSpaces withComment st =
     andThen (advance st) (nextLoop n withSpaces withComment)"
| "nextLoop 0 withSpaces withComment st = OutOfFuel"
| "nextLoop (Suc n) withSpaces withComment st =
     andThen (if \<not> withSpaces \<and> isSpace (curr st)
              then andThen (spaceLoop n st) (\<lambda>st1. Ok (True, st1))
              else Ok (False, st))
       (\<lambda>(skipped, st1).
          andThen (if \<not> withComment
                   then andThen (parseComment n st1)
                     (\<lambda>(comment, st2).
                        let (skipped2, st3) =
                              (if \<not> is_null comment
                               then (True, st2\<lparr>comments := comments st2 @ [comment]\<rparr>)
                               else (skipped, st2))
                        in if isIllegal (curr st3)
                           then Throw (unexpected st3 ''legal character'')
                           else Ok (skipped2, st3))
                   else Ok (skipped, st1))
            (\<lambda>(skipped2, st3).
               if skipped2 then nextLoop n withSpaces withComment st3 else Ok st3))"
| "parseComment 0 st = OutOfFuel"
| "parseComment (Suc n) st =
     andThen (lookahead n ''/*'' False st)
       (\<lambda>(isBlock, st1).
          if isBlock
          then andThen (blockLoop n [] st1)
                 (\<lambda>(str, st2).
                    andThen (seek (index st2 + 2) st2)
                      (\<lambda>st3. Ok (Comment ''BlockComment'' (lineNumber st1) str, st3)))
          else andThen (lookahead n ''//'' False st1)
                 (\<lambda>(isInline, st2).
                    if isInline
                    then andThen (inlineLoop n [] st2)
                           (\<lambda>(str, st3).
                              Ok (Comment ''InlineComment'' (lineNumber st2) str, st3))
                    else Ok (Null, st2)))"
| "blockLoop 0 str st = OutOfFuel"
| "blockLoop (Suc n) str st =
     (if curr st \<noteq> CHR ''*''
      then andThen (next' n True True st) (blockLoop n (str @ [curr st]))
      else case charAt (source st) (index st + 1) of
             None \<Rightarrow> OutOfRange
           | Some c \<Rightarrow>
               if c \<noteq> CHR ''/''
               then andThen (next' n True True st) (blockLoop n (str @ [curr st]))
               else Ok (str, st))"
| "inlineLoop 0 str st = OutOfFuel"
| "inlineLoop (Suc n) str st =
     (if curr st \<noteq> newline
      then andThen (next' n True True st) (inlineLoop n (str @ [curr st]))
      else Ok (str, st))"
| "lookahead 0 str keepBlanks st = OutOfFuel"
| "lookahead (Suc n) str keepBlanks st =
     andThen (matchLoop n (index st) str st)
       (\<lambda>(matched, st1).
          if \<not> matched then Ok (False, st1)
          else if isIdentifierStart (curr st1) \<and> isIdentifier str
          then andThen (seek (index st) st1) (\<lambda>st2. Ok (False, st2))
          else if \<not> keepBlanks
          then andThen (skipSpaces n st1) (\<lambda>st2. Ok (True, st2))
          else Ok (True, st1))"
| "matchLoop 0 i str st = OutOfFuel"
| "matchLoop (Suc n) i [] st = Ok (True, st)"
| "matchLoop (Suc n) i (ch # str) st =
     (if curr st \<noteq> ch
      then andThen (seek i st) (\<lambda>st1. Ok (False, st1))
      else andThen (next' n True False st) (matchLoop n i str))"
| "skipSpaces 0 st = OutOfFuel"
| "skipSpaces (Suc n) st =
     (if isSpace (curr st) then next' n False False st else Ok st)"
  by pat_completeness auto

termination
  by (relation "measure (case_sum (case_sum (case_sum fst fst) (case_sum fst fst))
                          (case_sum (case_sum fst fst) (case_sum fst fst)))") auto

text \<open>\<^verbatim>\<open>consume\<close>: the loop over the characters of \<open>str\<close>; the message names all of \<open>str\<close>.\<close>

fun consumeLoop :: "nat \<Rightarrow> string \<Rightarrow> string \<Rightarrow> parser \<Rightarrow> parser outcome" where
  "consumeLoop n str [] st = Ok st"
| "consumeLoop n str (ch # rest) st =
     (if curr st \<noteq> ch then Throw (unexpected st str)
      else andThen (next' n False False st) (consumeLoop n str rest))"

definition consume :: "nat \<Rightarrow> string \<Rightarrow> parser \<Rightarrow> parser outcome" where
  "consume n str st = consumeLoop n str str st"

text \<open>
  A chain \<^verbatim>\<open>if (lookahead(a)) ... else if (lookahead(b)) ...\<close> tries the strings in order
  and takes the branch of the first that matches: \<open>firstAhead\<close> returns that string,
  or the empty string when none matches (no string of such a chain is empty).
\<close>

fun firstAhead :: "nat \<Rightarrow> string list \<Rightarrow> parser \<Rightarrow> (string \<times> parser) outcome" where
  "firstAhead n [] st = Ok ([], st)"
| "firstAhead n (s # ss) st =
     andThen (lookahead n s False st)
       (\<lambda>(matched, st1). if matched then Ok (s, st1) else firstAhead n ss st1)"

section \<open>Lexical readers\<close>

fun identifierLoop :: "nat \<Rightarrow> string \<Rightarrow> parser \<Rightarrow> (string \<times> parser) outcome" where
  "identifierLoop 0 name st = OutOfFuel"
| "identifierLoop (Suc n) name st =
     (if curr st \<noteq> NUL \<and> isIdentifierBody (curr st)
      then andThen (next' n True False st) (identifierLoop n (name @ [curr st]))
      else Ok (name, st))"

text \<open>
  Modelled from the spec: the default arguments are declared in \<^verbatim>\<open>parser.hpp\<close>. The spec
  gives \<^verbatim>\<open>next(withSpaces=false, withComment=false)\<close>, \<^verbatim>\<open>lookahead(s, keepBlanks=false)\<close>,
  \<^verbatim>\<open>parseBody(shouldBeBlock=false)\<close>, \<^verbatim>\<open>parseDefinition(decl, isGlobal=false)\<close>, an
  optional \<open>end\<close> of \<^verbatim>\<open>parseExpression\<close> and an optional \<open>kind\<close> of \<^verbatim>\<open>parseDeclaration\<close>
  (both the empty string when left out); \<open>keepBlanks\<close> of \<^verbatim>\<open>parseIdentifier\<close> and
  \<^verbatim>\<open>parseString\<close> is taken to be \<open>False\<close> when left out, as for \<^verbatim>\<open>lookahead\<close>.
\<close>

definition parseIdentifier :: "nat \<Rightarrow> bool \<Rightarrow> parser \<Rightarrow> (node \<times> parser) outcome" where
  "parseIdentifier n keepBlanks st =
     (if \<not> isIdentifierStart (curr st) then Throw (unexpected st ''Identifier'')
      else andThen (next' n True False st)
        (\<lambda>st1. andThen (identifierLoop n [curr st] st1)
           (\<lambda>(name, st2).
              andThen (if \<not> keepBlanks then skipSpaces n st2 else Ok st2)
                (\<lambda>st3. Ok (Identifier (lineNumber st) name, st3)))))"

text \<open>
  The condition of the \<^verbatim>\<open>while\<close> of \<^verbatim>\<open>parseNumber\<close>; it reads \<^verbatim>\<open>source[index - 1]\<close> only
  when the first two disjuncts are false and \<^verbatim>\<open>curr\<close> is a minus sign in base 10.
\<close>

definition numberMore :: "int \<Rightarrow> parser \<Rightarrow> bool option" where
  "numberMore digits st =
     (if (curr st \<noteq> NUL \<and> (if digits = 16 then isHex (curr st) else isFloat (curr st)))
         \<or> (digits \<noteq> 16 \<and> tolower (curr st) = CHR ''e'')
      then Some True
      else if curr st = CHR ''-'' \<and> digits \<noteq> 16
      then map_option (\<lambda>c. tolower c = CHR ''e'') (charAt (source st) (index st - 1))
      else Some False)"

fun numberLoop ::
  "nat \<Rightarrow> int \<Rightarrow> string \<Rightarrow> string \<Rightarrow> parser \<Rightarrow> ((string \<times> string) \<times> parser) outcome" where
  "numberLoop 0 digits type val st = OutOfFuel"
| "numberLoop (Suc n) digits type val st =
     (case numberMore digits st of
        None \<Rightarrow> OutOfRange
      | Some False \<Rightarrow> Ok ((type, val), st)
      | Some True \<Rightarrow>
          andThen (next' n True False st)
            (numberLoop n digits
               (if curr st = CHR ''.'' then ''FloatNumberLiteral'' else type)
               (val @ [curr st])))"

text \<open>
  One optional suffix of a number: \<^verbatim>\<open>if (tolower(curr) == c) { type = prefix + type;
  value.push_back(curr); next(true); }\<close>
\<close>

definition numberSuffix ::
  "nat \<Rightarrow> char \<Rightarrow> string \<Rightarrow> (string \<times> string) \<times> parser
     \<Rightarrow> ((string \<times> string) \<times> parser) outcome" where
  "numberSuffix n c prefix = (\<lambda>((type, val), st).
     if tolower (curr st) = c
     then andThen (next' n True False st) (\<lambda>st1. Ok ((prefix @ type, val @ [curr st]), st1))
     else Ok ((type, val), st))"

text \<open>\<^verbatim>\<open>parseNumber\<close> returns the struct \<^verbatim>\<open>Literal<string>\<close>: kind, position, value.\<close>

definition parseNumber ::
  "nat \<Rightarrow> int \<Rightarrow> parser \<Rightarrow> ((string \<times> int \<times> string) \<times> parser) outcome" where
  "parseNumber n digits st =
     (if digits = 16 \<and> \<not> isHex (curr st) then Throw (unexpected st ''Number'')
      else
        let type0 = (if digits = 16 then ''HexNumberLiteral'' else ''NumberLiteral'');
            type1 = (if curr st = CHR ''.'' then ''FloatNumberLiteral'' else type0)
        in andThen (next' n True False st)
          (\<lambda>st1. andThen (numberLoop n digits type1 [curr st] st1)
             (\<lambda>((type2, val), st2).
                let type3 = (if take 1 val = ''0'' \<and> type2 \<noteq> ''FloatNumberLiteral''
                             then ''OctNumberLiteral'' else type2)
                in andThen (numberSuffix n (CHR ''l'') ''Long'' ((type3, val), st2))
                  (\<lambda>r. andThen (numberSuffix n (CHR ''u'') ''Unsigned'' r)
                     (\<lambda>((type5, val5), st4).
                        if digits = 16 \<and> curr st4 = CHR ''.''
                        then Throw (unexpected st4 ''hex number'')
                        else andThen (skipSpaces n st4)
                          (\<lambda>st5. Ok ((type5, lineNumber st,
                                      if digits = 16 then ''0x'' @ val5 else val5), st5)))))))"

text \<open>
  \<^verbatim>\<open>string(digits).find(tolower(curr))\<close>, called on a character of \<open>digits\<close> only.
\<close>

definition digitValue :: "string \<Rightarrow> char \<Rightarrow> int" where
  "digitValue digits c = int (length (takeWhile (\<lambda>d. d \<noteq> tolower c) digits))"

text \<open>
  One round of the \<^verbatim>\<open>for\<close> loops of \<^verbatim>\<open>parseEscape\<close>:
  \<^verbatim>\<open>if (isHex(curr)) { code = code * 16 + ...; next(true, true); }\<close> and its octal twin.
\<close>

definition escapeDigit ::
  "nat \<Rightarrow> (char \<Rightarrow> bool) \<Rightarrow> int \<Rightarrow> string \<Rightarrow> int \<times> parser \<Rightarrow> (int \<times> parser) outcome" where
  "escapeDigit n isDigitOf base digits = (\<lambda>(code, st).
     if isDigitOf (curr st)
     then andThen (next' n True True st)
            (\<lambda>st1. Ok (code * base + digitValue digits (curr st), st1))
     else Ok (code, st))"

text \<open>\<^verbatim>\<open>string(1, code)\<close>: the conversion to \<^verbatim>\<open>char\<close> keeps the low eight bits.\<close>

definition charString :: "int \<Rightarrow> string" where
  "charString code = [char_of code]"

definition parseEscape :: "nat \<Rightarrow> parser \<Rightarrow> (string \<times> parser) outcome" where
  "parseEscape n st =
     andThen (seek (index st + 1) st)
       (\<lambda>st1.
          if curr st1 = CHR ''x''
          then andThen (next' n True True st1)
            (\<lambda>st2. andThen (escapeDigit n isHex 16 ''0123456789abcdef'' (0, st2))
               (\<lambda>r. andThen (escapeDigit n isHex 16 ''0123456789abcdef'' r)
                  (\<lambda>(code, st4). Ok (charString code, st4))))
          else if isOct (curr st1)
          then andThen (escapeDigit n isOct 8 ''01234567'' (0, st1))
            (\<lambda>r. andThen (escapeDigit n isOct 8 ''01234567'' r)
               (\<lambda>r. andThen (escapeDigit n isOct 8 ''01234567'' r)
                  (\<lambda>(code, st4). Ok (charString code, st4))))
          else if curr st1 \<in> set (escapes st1)
          then andThen (next' n True True st1)
            (\<lambda>st2. Ok ([backslash, curr st1], st2))
          else Throw (unexpected st1 ''escape sequence''))"

fun stringLoop :: "nat \<Rightarrow> string \<Rightarrow> parser \<Rightarrow> (string \<times> parser) outcome" where
  "stringLoop 0 str st = OutOfFuel"
| "stringLoop (Suc n) str st =
     (if curr st \<noteq> NUL \<and> curr st \<noteq> dquote
      then if curr st = backslash
           then andThen (parseEscape n st) (\<lambda>(esc, st1). stringLoop n (str @ esc) st1)
           else andThen (next' n True True st) (stringLoop n (str @ [curr st]))
      else Ok (str, st))"

definition parseString :: "nat \<Rightarrow> bool \<Rightarrow> parser \<Rightarrow> (string \<times> parser) outcome" where
  "parseString n keepBlanks st =
     andThen (next' n True True st)
       (\<lambda>st1. andThen (stringLoop n [] st1)
          (\<lambda>(str, st2). andThen (lookahead n [dquote] keepBlanks st2)
             (\<lambda>(closed, st3).
                if \<not> closed then Throw (unexpected st3 ''double quote'')
                else Ok (str, st3))))"

fun includeLoop :: "nat \<Rightarrow> char \<Rightarrow> string \<Rightarrow> parser \<Rightarrow> (string \<times> parser) outcome" where
  "includeLoop 0 stop str st = OutOfFuel"
| "includeLoop (Suc n) stop str st =
     (if curr st \<noteq> NUL \<and> curr st \<noteq> stop
      then andThen (next' n True False st) (includeLoop n stop (str @ [curr st]))
      else Ok (str, st))"

definition parseInclude :: "nat \<Rightarrow> parser \<Rightarrow> (node \<times> parser) outcome" where
  "parseInclude n st =
     andThen (if curr st = CHR ''<'' then includeLoop n (CHR ''>'') [] st
              else if curr st = dquote
              then andThen (next' n True False st) (includeLoop n dquote [curr st])
              else Throw (unexpected st [dquote, CHR '' '', CHR ''o'', CHR ''r'', CHR '' '', CHR ''<'']))
       (\<lambda>(str, st1).
          andThen (next' n True False st1)
            (\<lambda>st2. Ok (IncludeStatement (lineNumber st) (str @ [curr st1]), st2)))"

section \<open>Declarations\<close>

text \<open>
  The two \<^verbatim>\<open>for\<close> loops of \<^verbatim>\<open>declarationIncoming\<close> and the one of \<^verbatim>\<open>scanBinaryOperator\<close>:
  the first string that matches ends the search, and the cursor goes back to \<open>i\<close>.
\<close>

fun incomingLoop :: "nat \<Rightarrow> int \<Rightarrow> string list \<Rightarrow> parser \<Rightarrow> (bool \<times> parser) outcome" where
  "incomingLoop n i [] st = Ok (False, st)"
| "incomingLoop n i (s # ss) st =
     andThen (lookahead n s False st)
       (\<lambda>(matched, st1).
          if matched then andThen (seek i st1) (\<lambda>st2. Ok (True, st2))
          else incomingLoop n i ss st1)"

definition declarationIncoming :: "nat \<Rightarrow> parser \<Rightarrow> (bool \<times> parser) outcome" where
  "declarationIncoming n st =
     andThen (incomingLoop n (index st) (typeModifiers st) st)
       (\<lambda>(found, st1).
          if found then Ok (True, st1) else incomingLoop n (index st) (typeNames st) st1)"

fun scanLoop :: "nat \<Rightarrow> int \<Rightarrow> string list \<Rightarrow> parser \<Rightarrow> (string \<times> parser) outcome" where
  "scanLoop n i [] st = Ok ([], st)"
| "scanLoop n i (op # ops) st =
     andThen (lookahead n op False st)
       (\<lambda>(matched, st1).
          if matched then andThen (seek i st1) (\<lambda>st2. Ok (op, st2))
          else scanLoop n i ops st1)"

definition scanBinaryOperator :: "nat \<Rightarrow> parser \<Rightarrow> (string \<times> parser) outcome" where
  "scanBinaryOperator n st = scanLoop n (index st) (operators st) st"

text \<open>\<^verbatim>\<open>precedence[op]\<close>, read for operators of the table only.\<close>

definition precedenceOf :: "parser \<Rightarrow> string \<Rightarrow> int" where
  "precedenceOf st op = (case map_of (precedence st) op of Some p \<Rightarrow> p | None \<Rightarrow> 0)"

text \<open>
  \<^verbatim>\<open>parseDeclaration\<close>: \<open>modifierPass\<close> is one round of the \<^verbatim>\<open>for\<close> over the modifiers,
  \<open>modifierLoop\<close> the \<^verbatim>\<open>do ... while (hasModifier)\<close> around it, \<open>typeNameLoop\<close> the
  \<^verbatim>\<open>for\<close> over the type names, which stops at the first name that matches.
\<close>

fun modifierPass ::
  "nat \<Rightarrow> string list \<Rightarrow> string list \<Rightarrow> bool \<Rightarrow> parser
     \<Rightarrow> ((string list \<times> bool) \<times> parser) outcome" where
  "modifierPass n [] modifiers hasModifier st = Ok ((modifiers, hasModifier), st)"
| "modifierPass n (m # ms) modifiers hasModifier st =
     andThen (lookahead n m False st)
       (\<lambda>(matched, st1).
          if matched then modifierPass n ms (modifiers @ [m]) True st1
          else modifierPass n ms modifiers hasModifier st1)"

fun modifierLoop :: "nat \<Rightarrow> string list \<Rightarrow> parser \<Rightarrow> (string list \<times> parser) outcome" where
  "modifierLoop 0 modifiers st = OutOfFuel"
| "modifierLoop (Suc n) modifiers st =
     andThen (modifierPass n (typeModifiers st) modifiers False st)
       (\<lambda>((modifiers1, hasModifier), st1).
          if hasModifier then modifierLoop n modifiers1 st1 else Ok (modifiers1, st1))"

fun typeNameLoop :: "nat \<Rightarrow> string list \<Rightarrow> parser \<Rightarrow> (string option \<times> parser) outcome" where
  "typeNameLoop n [] st = Ok (None, st)"
| "typeNameLoop n (name # names) st =
     andThen (lookahead n name False st)
       (\<lambda>(matched, st1). if matched then Ok (Some name, st1) else typeNameLoop n names st1)"

text \<open>
  Modelled from the spec: the struct \<^verbatim>\<open>Declaration\<close> is declared in \<^verbatim>\<open>parser.hpp\<close>; the
  kind it has when \<^verbatim>\<open>parseDeclaration\<close> is given none is \<open>Declaration\<close> in the spec.
\<close>

definition declarationKind :: "string \<Rightarrow> string" where
  "declarationKind kind = (if kind \<noteq> [] then kind else ''Declaration'')"

definition parseDeclaration :: "nat \<Rightarrow> string \<Rightarrow> parser \<Rightarrow> (decl \<times> parser) outcome" where
  "parseDeclaration n kind st =
     andThen (modifierLoop n [] st)
       (\<lambda>(modifiers, st1).
          andThen (typeNameLoop n (typeNames st1) st1)
            (\<lambda>(found, st2).
               case found of
                 Some name \<Rightarrow>
                   andThen (parseIdentifier n False st2)
                     (\<lambda>(identifier, st3).
                        Ok (Declaration (declarationKind kind) (lineNumber st2) identifier
                              (Type (lineNumber st) modifiers name), st3))
               | None \<Rightarrow>
                   if modifiers \<noteq> []
                   then andThen (parseIdentifier n False st2)
                     (\<lambda>(identifier, st3).
                        Ok (Declaration (declarationKind kind) (lineNumber st2) identifier
                              (Type (lineNumber st) (butlast modifiers) (last modifiers)), st3))
                   else Throw (unexpected st2 ''correct type name'')))"

fun declToJson :: "decl \<Rightarrow> node" where
  "declToJson (Declaration kind position identifier type) =
     DeclarationNode kind position identifier type"

fun parametersLoop :: "nat \<Rightarrow> node \<Rightarrow> parser \<Rightarrow> (node \<times> parser) outcome" where
  "parametersLoop 0 params st = OutOfFuel"
| "parametersLoop (Suc n) params st =
     andThen (declarationIncoming n st)
       (\<lambda>(incoming, st1).
          if incoming
          then andThen (parseDeclaration n ''ParameterDeclaration'' st1)
            (\<lambda>(declaration, st2).
               andThen (lookahead n '')'' False st2)
                 (\<lambda>(closed, st3).
                    if closed then Ok (push_back params (declToJson declaration), st3)
                    else andThen (consume n '','' st3)
                           (parametersLoop n (push_back params (declToJson declaration)))))
          else andThen (consume n '')'' st1) (\<lambda>st2. Ok (params, st2)))"

definition parseParameters :: "nat \<Rightarrow> parser \<Rightarrow> (node \<times> parser) outcome" where
  "parseParameters n st = parametersLoop n (Arr []) st"

section \<open>The grammar\<close>

text \<open>
  The flush of the comment queue into a statement list:
  \<^verbatim>\<open>for (const json &comment: comments) statements.push_back(comment); comments.clear();\<close>
\<close>

definition flushComments :: "node \<Rightarrow> parser \<Rightarrow> node \<times> parser" where
  "flushComments statements st = (foldl push_back statements (comments st), st\<lparr>comments := []\<rparr>)"

text \<open>
  \<^verbatim>\<open>string kind = init["kind"]; if (kind == "VariableDefinition" || kind ==
  "VariableDeclaration") init["kind"] = "For" + kind;\<close> Only a definition node has one of
  these kinds.
\<close>

fun forInit :: "node \<Rightarrow> node" where
  "forInit (Definition kind position identifier type len val) =
     (if kind = ''VariableDefinition'' \<or> kind = ''VariableDeclaration''
      then Definition (''For'' @ kind) position identifier type len val
      else Definition kind position identifier type len val)"
| "forInit init = init"

text \<open>
  The rewrite of the comma in \<^verbatim>\<open>parseDefinition\<close>:
  \<^verbatim>\<open>source.replace(static_cast<unsigned long>(index), 1, name)\<close>, where \<open>name\<close> is the
  modifiers and the type name joined by spaces. \<^verbatim>\<open>curr\<close> is left as it is.
\<close>

fun typeString :: "ctype \<Rightarrow> string" where
  "typeString (Type position modifiers name) = concat (map (\<lambda>m. m @ '' '') modifiers) @ name"

definition replaceSource :: "string \<Rightarrow> parser \<Rightarrow> parser outcome" where
  "replaceSource name st =
     (if 0 \<le> index st \<and> index st \<le> int (length (source st))
      then Ok (st\<lparr>source := take (nat (index st)) (source st) @ name
                                @ drop (nat (index st) + 1) (source st)\<rparr>)
      else OutOfRange)"

text \<open>
  The functions of the grammar call each other. The loops: \<open>bodyLoop\<close> is the \<^verbatim>\<open>while\<close>
  of a block body, \<open>lengthLoop\<close> the \<^verbatim>\<open>while (lookahead("["))\<close> of \<^verbatim>\<open>parseDefinition\<close>,
  \<open>binaryLoop\<close> and \<open>rightLoop\<close> the outer and the inner \<^verbatim>\<open>while\<close> of \<^verbatim>\<open>parseBinary\<close>,
  \<open>indexLoop\<close> the \<^verbatim>\<open>while (lookahead("["))\<close> of \<^verbatim>\<open>parseUnary\<close>, and \<open>expressionList\<close>
  the loop \<^verbatim>\<open>while (curr) { items.push_back(parseExpression()); if (!lookahead(","))
  break; }\<close> that \<^verbatim>\<open>parseUnary\<close>, \<^verbatim>\<open>parseLiteral\<close> and \<^verbatim>\<open>parsePredefine\<close> each contain.
\<close>

function (sequential)
    parseBody :: "nat \<Rightarrow> bool \<Rightarrow> parser \<Rightarrow> (node \<times> parser) outcome"
and bodyLoop :: "nat \<Rightarrow> node \<Rightarrow> parser \<Rightarrow> (node \<times> parser) outcome"
and parseStatement :: "nat \<Rightarrow> parser \<Rightarrow> (node \<times> parser) outcome"
and parseDefinition :: "nat \<Rightarrow> decl \<Rightarrow> bool \<Rightarrow> parser \<Rightarrow> (node \<times> parser) outcome"
and lengthLoop :: "nat \<Rightarrow> node \<Rightarrow> bool \<Rightarrow> parser \<Rightarrow> ((node \<times> bool) \<times> parser) outcome"
and parseExpression :: "nat \<Rightarrow> string \<Rightarrow> parser \<Rightarrow> (node \<times> parser) outcome"
and parseBinary :: "nat \<Rightarrow> node \<Rightarrow> int \<Rightarrow> parser \<Rightarrow> (node \<times> parser) outcome"
and binaryLoop :: "nat \<Rightarrow> node \<Rightarrow> int \<Rightarrow> string \<Rightarrow> parser \<Rightarrow> (node \<times> parser) outcome"
and rightLoop ::
      "nat \<Rightarrow> node \<Rightarrow> string \<Rightarrow> string \<Rightarrow> parser \<Rightarrow> ((node \<times> string) \<times> parser) outcome"
and parseUnary :: "nat \<Rightarrow> parser \<Rightarrow> (node \<times> parser) outcome"
and indexLoop :: "nat \<Rightarrow> node \<Rightarrow> parser \<Rightarrow> (node \<times> parser) outcome"
and expressionList :: "nat \<Rightarrow> node \<Rightarrow> parser \<Rightarrow> (node \<times> parser) outcome"
and parseLiteral :: "nat \<Rightarrow> parser \<Rightarrow> (node \<times> parser) outcome"
where
  "parseBody 0 shouldBeBlock st = OutOfFuel"
| "parseBody (Suc n) shouldBeBlock st =
     (if curr st = CHR ''{'' \<or> shouldBeBlock
      then andThen (consume n ''{'' st)
        (\<lambda>st1. let (statements, st2) = flushComments (Arr []) st1
           in andThen (bodyLoop n statements st2)
             (\<lambda>(statements1, st3).
                andThen (consume n ''}'' st3)
                  (\<lambda>st4. Ok (BodyStatement ''BlockStatement'' (lineNumber st) statements1, st4))))
      else let (statements, st1) = flushComments (Arr []) st
        in andThen (lookahead n '';'' False st1)
          (\<lambda>(semicolon, st2).
             if \<not> semicolon
             then andThen (parseStatement n st2)
               (\<lambda>(statement, st3).
                  Ok (BodyStatement ''InlineStatement'' (lineNumber st)
                        (push_back statements statement), st3))
             else Ok (BodyStatement ''InlineStatement'' (lineNumber st) statements, st2)))"
| "bodyLoop 0 statements st = OutOfFuel"
| "bodyLoop (Suc n) statements st =
     (if curr st \<noteq> NUL \<and> curr st \<noteq> CHR ''}''
      then andThen (parseStatement n st)
        (\<lambda>(statement, st1).
           let (statements1, st2) = flushComments (push_back statements statement) st1
           in bodyLoop n statements1 st2)
      else Ok (statements, st))"
| "parseStatement 0 st = OutOfFuel"
| "parseStatement (Suc n) st =
     andThen (firstAhead n [''if'', ''while'', ''do'', ''for'', ''return'', ''break'', ''continue''] st)
       (\<lambda>(keyword, st1).
          if keyword = ''if''
          then andThen (consume n ''('' st1)
            (\<lambda>st2. andThen (parseExpression n '')'' st2)
               (\<lambda>(condition, st3).
                  if is_null condition then Throw (unexpected st3 ''if condition'')
                  else andThen (lookahead n ''else'' False st3)
                    (\<lambda>(noBody, st4).
                       if noBody then Throw (unexpected st4 ''if body statement'')
                       else andThen (parseBody n False st4)
                         (\<lambda>(body, st5).
                            andThen (lookahead n ''else'' False st5)
                              (\<lambda>(hasElse, st6).
                                 if hasElse
                                 then andThen (parseBody n False st6)
                                   (\<lambda>(elseBody, st7).
                                      Ok (IfStatement (lineNumber st1) condition body elseBody, st7))
                                 else Ok (IfStatement (lineNumber st1) condition body Null, st6))))))
          else if keyword = ''while''
          then andThen (consume n ''('' st1)
            (\<lambda>st2. andThen (parseExpression n '')'' st2)
               (\<lambda>(condition, st3).
                  if is_null condition then Throw (unexpected st3 ''while condition'')
                  else andThen (parseBody n False st3)
                    (\<lambda>(body, st4).
                       Ok (WhileStatement ''WhileStatement'' (lineNumber st1) condition body, st4))))
          else if keyword = ''do''
          then andThen (parseBody n False st1)
            (\<lambda>(body, st2).
               andThen (consume n ''while'' st2)
                 (\<lambda>st3. andThen (consume n ''('' st3)
                    (\<lambda>st4. andThen (parseExpression n '')'' st4)
                       (\<lambda>(condition, st5).
                          if is_null condition then Throw (unexpected st5 ''while condition'')
                          else andThen (consume n '';'' st5)
                            (\<lambda>st6. Ok (WhileStatement ''DoWhileStatement'' (lineNumber st1)
                                          condition body, st6))))))
          else if keyword = ''for''
          then andThen (consume n ''('' st1)
            (\<lambda>st2. andThen (parseStatement n st2)
               (\<lambda>(init, st3).
                  andThen (parseExpression n '';'' st3)
                    (\<lambda>(condition, st4).
                       andThen (parseExpression n '')'' st4)
                         (\<lambda>(step, st5).
                            andThen (parseBody n False st5)
                              (\<lambda>(body, st6).
                                 Ok (ForStatement (lineNumber st1) (forInit init) condition step
                                       body, st6))))))
          else if keyword = ''return''
          then andThen (parseExpression n '';'' st1)
            (\<lambda>(val, st2). Ok (ReturnStatement (lineNumber st1) val, st2))
          else if keyword = ''break''
          then andThen (parseExpression n '';'' st1)
            (\<lambda>(label, st2). Ok (InterruptStatement ''BreakStatement'' (lineNumber st1) label, st2))
          else if keyword = ''continue''
          then andThen (parseExpression n '';'' st1)
            (\<lambda>(label, st2).
               Ok (InterruptStatement ''ContinueStatement'' (lineNumber st1) label, st2))
          else andThen (declarationIncoming n st1)
            (\<lambda>(incoming, st2).
               if incoming
               then andThen (parseDeclaration n [] st2)
                 (\<lambda>(declaration, st3). parseDefinition n declaration False st3)
               else andThen (parseExpression n '';'' st2)
                 (\<lambda>(expression, st3). Ok (ExpressionStatement (lineNumber st2) expression, st3))))"
| "parseDefinition 0 declaration isGlobal st = OutOfFuel"
| "parseDefinition (Suc n) (Declaration dkind position identifier type) isGlobal st =
     andThen (lengthLoop n Null False st)
       (\<lambda>((len, isArray), st1).
          andThen (lookahead n ''='' False st1)
            (\<lambda>(hasValue, st2).
               andThen (if hasValue
                        then andThen (parseExpression n [] st2)
                          (\<lambda>(val, st3).
                             Ok ((if isArray then ''ArrayDefinition'' else ''VariableDefinition'',
                                  val), st3))
                        else Ok ((if isArray then ''ArrayDeclaration'' else ''VariableDeclaration'',
                                  Null), st2))
                 (\<lambda>((kind, val), st3).
                    let def = Definition (if isGlobal then ''Global'' @ kind else kind) position
                                identifier type (if isArray then len else Null) val
                    in if curr st3 = CHR '',''
                       then andThen (replaceSource (typeString type) st3) (\<lambda>st4. Ok (def, st4))
                       else andThen (consume n '';'' st3) (\<lambda>st4. Ok (def, st4)))))"
| "lengthLoop 0 len isArray st = OutOfFuel"
| "lengthLoop (Suc n) len isArray st =
     andThen (lookahead n ''['' False st)
       (\<lambda>(opened, st1).
          if opened
          then andThen (lookahead n '']'' False st1)
            (\<lambda>(closed, st2).
               if \<not> closed
               then andThen (parseExpression n [] st2)
                 (\<lambda>(expression, st3).
                    andThen (consume n '']'' st3)
                      (lengthLoop n (push_back len expression) True))
               else lengthLoop n (push_back len Null) True st2)
          else Ok ((len, isArray), st1))"
| "parseExpression 0 endStr st = OutOfFuel"
| "parseExpression (Suc n) endStr st =
     andThen (parseUnary n st)
       (\<lambda>(unary, st1).
          andThen (parseBinary n unary 0 st1)
            (\<lambda>(expr, st2).
               if endStr \<noteq> [] then andThen (consume n endStr st2) (\<lambda>st3. Ok (expr, st3))
               else Ok (expr, st2)))"
| "parseBinary 0 left minPrecedence st = OutOfFuel"
| "parseBinary (Suc n) left minPrecedence st =
     andThen (scanBinaryOperator n st)
       (\<lambda>(ahead, st1). binaryLoop n left minPrecedence ahead st1)"
| "binaryLoop 0 left minPrecedence ahead st = OutOfFuel"
| "binaryLoop (Suc n) left minPrecedence ahead st =
     (if ahead \<noteq> [] \<and> precedenceOf st ahead \<ge> minPrecedence
      then andThen (consume n ahead st)
        (\<lambda>st1. andThen (parseUnary n st1)
           (\<lambda>(right, st2).
              if is_null right then Throw (unexpected st2 ''right value'')
              else andThen (scanBinaryOperator n st2)
                (\<lambda>(ahead1, st3).
                   andThen (rightLoop n right ahead ahead1 st3)
                     (\<lambda>((right1, ahead2), st4).
                        binaryLoop n (BinaryExpression (lineNumber st) ahead left right1)
                          minPrecedence ahead2 st4))))
      else Ok (left, st))"
| "rightLoop 0 right op ahead st = OutOfFuel"
| "rightLoop (Suc n) right op ahead st =
     (if ahead \<noteq> [] \<and> precedenceOf st ahead > precedenceOf st op
      then andThen (parseBinary n right (precedenceOf st ahead) st)
        (\<lambda>(right1, st1).
           if is_null right1 then Throw (unexpected st1 ''right value'')
           else andThen (scanBinaryOperator n st1)
             (\<lambda>(ahead1, st2). rightLoop n right1 op ahead1 st2))
      else Ok ((right, ahead), st))"
| "parseUnary 0 st = OutOfFuel"
| "parseUnary (Suc n) st =
     andThen (parseLiteral n st)
       (\<lambda>(literal, st1).
          andThen (indexLoop n Null st1)
            (\<lambda>(indexes, st2).
               if \<not> empty_json indexes
               then Ok (IndexExpression (lineNumber st2) literal indexes, st2)
               else andThen (lookahead n ''('' False st2)
                 (\<lambda>(opened, st3).
                    if opened
                    then if \<not> is_null literal
                      then andThen (expressionList n Null st3)
                        (\<lambda>(arguments, st4).
                           andThen (consume n '')'' st4)
                             (\<lambda>st5. Ok (CallExpression (lineNumber st3) literal arguments, st5)))
                      else andThen (parseExpression n [] st3)
                        (\<lambda>(expression, st4).
                           andThen (consume n '')'' st4)
                             (\<lambda>st5. Ok (ParenthesesExpression (lineNumber st3) expression, st5)))
                    else Ok (literal, st3))))"
| "indexLoop 0 indexes st = OutOfFuel"
| "indexLoop (Suc n) indexes st =
     andThen (lookahead n ''['' False st)
       (\<lambda>(opened, st1).
          if opened
          then andThen (parseExpression n [] st1)
            (\<lambda>(expression, st2).
               andThen (consume n '']'' st2) (indexLoop n (push_back indexes expression)))
          else Ok (indexes, st1))"
| "expressionList 0 items st = OutOfFuel"
| "expressionList (Suc n) items st =
     (if curr st \<noteq> NUL
      then andThen (parseExpression n [] st)
        (\<lambda>(expression, st1).
           andThen (lookahead n '','' False st1)
             (\<lambda>(comma, st2).
                if \<not> comma then Ok (push_back items expression, st2)
                else expressionList n (push_back items expression) st2))
      else Ok (items, st))"
| "parseLiteral 0 st = OutOfFuel"
| "parseLiteral (Suc n) st =
     andThen (lookahead n ''{'' False st)
       (\<lambda>(brace, st1).
          if brace
          then andThen (expressionList n Null st1)
            (\<lambda>(entries, st2).
               andThen (consume n ''}'' st2)
                 (\<lambda>st3. Ok (ArrayLiteral (lineNumber st1) entries, st3)))
          else if curr st1 = quote
          then andThen (next' n True True st1)
            (\<lambda>st2. andThen (if curr st2 = backslash then parseEscape n st2
                              else andThen (next' n True True st2) (\<lambda>st3. Ok ([curr st2], st3)))
               (\<lambda>(ch, st3).
                  andThen (consume n [quote] st3)
                    (\<lambda>st4. Ok (Literal ''CharLiteral'' (lineNumber st2) ch, st4))))
          else if curr st1 = dquote
          then andThen (parseString n False st1)
            (\<lambda>(str, st2). Ok (Literal ''StringLiteral'' (lineNumber st1) str, st2))
          else andThen (lookahead n ''0x'' False st1)
            (\<lambda>(hex, st2).
               if hex
               then andThen (parseNumber n 16 st2)
                 (\<lambda>((kind, position, val), st3). Ok (Literal kind position val, st3))
               else andThen (lookahead n ''-0x'' False st2)
                 (\<lambda>(negativeHex, st3).
                    if negativeHex
                    then andThen (parseNumber n 16 st3)
                      (\<lambda>((kind, position, val), st4).
                         Ok (Literal kind position (''-'' @ val), st4))
                    else if isFloat (curr st3) \<or> curr st3 = CHR ''-''
                    then andThen (parseNumber n 10 st3)
                      (\<lambda>((kind, position, val), st4). Ok (Literal kind position val, st4))
                    else if isIdentifierStart (curr st3) then parseIdentifier n False st3
                    else Ok (Null, st3))))"
  by pat_completeness auto

termination
  by (relation "measure
        (case_sum
           (case_sum (case_sum fst (case_sum fst fst)) (case_sum fst (case_sum fst fst)))
           (case_sum (case_sum fst (case_sum fst fst))
                     (case_sum (case_sum fst fst) (case_sum fst fst))))") auto

section \<open>The top level\<close>

fun parseFunction :: "nat \<Rightarrow> decl \<Rightarrow> parser \<Rightarrow> (node \<times> parser) outcome" where
  "parseFunction n (Declaration dkind position identifier type) st =
     andThen (parseParameters n st)
       (\<lambda>(parameters, st1).
          andThen (lookahead n '';'' False st1)
            (\<lambda>(semicolon, st2).
               if semicolon then Ok (FunctionDeclaration position identifier type parameters, st2)
               else andThen (parseBody n True st2)
                 (\<lambda>(body, st3).
                    Ok (FunctionDefinition position identifier type parameters body, st3))))"

definition parsePredefine :: "nat \<Rightarrow> parser \<Rightarrow> (node \<times> parser) outcome" where
  "parsePredefine n st =
     andThen (parseIdentifier n False st)
       (\<lambda>(identifier, st1).
          andThen (lookahead n ''('' False st1)
            (\<lambda>(opened, st2).
               andThen (if opened
                        then andThen (expressionList n Null st2)
                          (\<lambda>(arguments, st3).
                             andThen (consume n '')'' st3) (\<lambda>st4. Ok (arguments, st4)))
                        else Ok (Null, st2))
                 (\<lambda>(arguments, st3).
                    if \<not> is_null arguments \<and> curr st3 \<noteq> CHR ''(''
                    then Throw (unexpected st3 ''('')
                    else andThen (parseExpression n [] st3)
                      (\<lambda>(str, st4).
                         Ok (PredefineStatement (lineNumber st) identifier arguments str, st4)))))"

text \<open>\<^verbatim>\<open>declaration.identifier.name\<close>; the identifier is the node of \<^verbatim>\<open>parseIdentifier\<close>.\<close>

fun identifierName :: "decl \<Rightarrow> string" where
  "identifierName (Declaration kind position (Identifier p name) type) = name"
| "identifierName d = []"

text \<open>
  One round of the \<^verbatim>\<open>while (curr)\<close> of \<^verbatim>\<open>parse\<close>, from the first \<^verbatim>\<open>lookahead\<close> to the
  \<^verbatim>\<open>push_back\<close>: \<open>topLevel\<close> returns the node that the round appends to the program.
\<close>

definition topLevel :: "nat \<Rightarrow> parser \<Rightarrow> (node \<times> parser) outcome" where
  "topLevel n st =
     andThen (firstAhead n [''#include'', ''#define''] st)
       (\<lambda>(directive, st1).
          if directive = ''#include'' then parseInclude n st1
          else if directive = ''#define'' then parsePredefine n st1
          else andThen (declarationIncoming n st1)
            (\<lambda>(incoming, st2).
               if incoming
               then andThen (parseDeclaration n [] st2)
                 (\<lambda>(declaration, st3).
                    andThen (lookahead n ''('' False st3)
                      (\<lambda>(opened, st4).
                         if opened then parseFunction n declaration st4
                         else parseDefinition n declaration True st4))
               else andThen (firstAhead n [''typedef'', ''struct'', ''enum''] st2)
                 (\<lambda>(keyword, st3).
                    if keyword = ''typedef''
                    then andThen (parseDeclaration n ''TypeDefinition'' st3)
                      (\<lambda>(declaration, st4).
                         andThen (consume n '';''
                                    (st4\<lparr>typeNames := typeNames st4 @ [identifierName declaration]\<rparr>))
                           (\<lambda>st5. Ok (declToJson declaration, st5)))
                    else if keyword = ''struct'' then Throw ''struct is not supported''
                    else if keyword = ''enum'' then Throw ''enum is not supported''
                    else Throw (unexpected st3 ''definition''))))"

fun parseLoop :: "nat \<Rightarrow> node \<Rightarrow> parser \<Rightarrow> (node \<times> parser) outcome" where
  "parseLoop 0 statements st = OutOfFuel"
| "parseLoop (Suc n) statements st =
     (if curr st \<noteq> NUL
      then andThen (skipSpaces n st)
        (\<lambda>st1. let (statements1, st2) = flushComments statements st1
           in andThen (topLevel n st2)
             (\<lambda>(item, st3).
                let (statements2, st4) = flushComments (push_back statements1 item) st3
                in andThen (skipSpaces n st4) (parseLoop n statements2)))
      else Ok (statements, st))"

text \<open>
  \<^verbatim>\<open>parse\<close> runs on a freshly constructed parser. It returns the program; the model
  returns the final state with it, which holds the rewritten \<^verbatim>\<open>source\<close>.
\<close>

definition parse :: "nat \<Rightarrow> parser \<Rightarrow> (node \<times> parser) outcome" where
  "parse n st =
     andThen (next' n False False st)
       (\<lambda>st1. andThen (parseLoop n Null st1)
          (\<lambda>(statements, st2). Ok (Program statements, st2)))"

section \<open>A configuration\<close>

text \<open>
  Modelled from the spec: the tables of \<^verbatim>\<open>parser.hpp\<close>. The spec lists the type modifiers
  \<^verbatim>\<open>const, static, extern, unsigned, signed, long, short, volatile\<close>, the type names
  \<^verbatim>\<open>void, char, int, float, double\<close> and the escape letters \<^verbatim>\<open>n t r 0 \ ' " a b f v\<close>.
  Of the operators it says that they are the assignment, comparison, arithmetic,
  bitwise and logical operators of the dialect, longer operators before their prefixes,
  and that a higher precedence binds tighter; the table below is C's, with its levels.
\<close>

definition typeModifiers0 :: "string list" where
  "typeModifiers0 = [''const'', ''static'', ''extern'', ''unsigned'', ''signed'', ''long'',
     ''short'', ''volatile'']"

definition typeNames0 :: "string list" where
  "typeNames0 = [''void'', ''char'', ''int'', ''float'', ''double'']"

definition precedence0 :: "(string \<times> int) list" where
  "precedence0 =
     [(''<<='', 0), (''>>='', 0), (''=='', 6), (''!='', 6), (''<='', 7), (''>='', 7),
      (''&&'', 2), (''||'', 1), (''<<'', 8), (''>>'', 8), (''+='', 0), (''-='', 0),
      (''*='', 0), (''/='', 0), (''%='', 0), (''&='', 0), (''|='', 0), (''^='', 0),
      (''='', 0), (''<'', 7), (''>'', 7), (''+'', 9), (''-'', 9), (''*'', 10), (''/'', 10),
      (''%'', 10), (''&'', 5), (''|'', 3), (''^'', 4)]"

definition operators0 :: "string list" where
  "operators0 = map fst precedence0"

definition escapes0 :: string where
  "escapes0 = [CHR ''n'', CHR ''t'', CHR ''r'', CHR ''0'', backslash, quote, dquote,
     CHR ''a'', CHR ''b'', CHR ''f'', CHR ''v'']"

definition newParser :: "string \<Rightarrow> parser" where
  "newParser src = Parser typeModifiers0 typeNames0 operators0 precedence0 escapes0 src"

text \<open>The state in which \<^verbatim>\<open>parse\<close> calls its first function: after the priming \<^verbatim>\<open>next()\<close>.\<close>

definition primed :: "nat \<Rightarrow> string \<Rightarrow> parser outcome" where
  "primed n src = next' n False False (newParser src)"

text \<open>
  The functions of the grammar called where \<^verbatim>\<open>parse\<close> calls them: on the primed parser
  of a source text.
\<close>

definition statementOf :: "nat \<Rightarrow> string \<Rightarrow> (node \<times> parser) outcome" where
  "statementOf n src = andThen (primed n src) (parseStatement n)"

definition expressionOf :: "nat \<Rightarrow> string \<Rightarrow> (node \<times> parser) outcome" where
  "expressionOf n src = andThen (primed n src) (parseExpression n [])"

definition literalOf :: "nat \<Rightarrow> string \<Rightarrow> (node \<times> parser) outcome" where
  "literalOf n src = andThen (primed n src) (parseLiteral n)"

definition lookaheadOf :: "nat \<Rightarrow> string \<Rightarrow> string \<Rightarrow> (bool \<times> parser) outcome" where
  "lookaheadOf n str src = andThen (primed n src) (lookahead n str False)"

definition topLevelOf :: "nat \<Rightarrow> string \<Rightarrow> (node \<times> parser) outcome" where
  "topLevelOf n src = andThen (primed n src) (topLevel n)"

text \<open>The value that a run returns, without the final state.\<close>

definition nodeOf :: "('a \<times> parser) outcome \<Rightarrow> 'a outcome" where
  "nodeOf a = andThen a (\<lambda>(x, st). Ok x)"


section \<open>Predicates of the proofs\<close>

text \<open>
  \<open>settled a b\<close>: if the run \<open>a\<close> did not stop for lack of fuel, the run \<open>b\<close> (with more
  fuel) has the same outcome.
\<close>

definition settled :: "'a outcome \<Rightarrow> 'a outcome \<Rightarrow> bool" where
  "settled a b = (a \<noteq> OutOfFuel \<longrightarrow> b = a)"





text \<open>
  \<open>kept st0 st\<close>: the state \<open>st\<close> has the source and the tables of \<open>st0\<close>, and its
  comment queue is the queue of \<open>st0\<close> with comments appended.
\<close>

definition kept :: "parser \<Rightarrow> parser \<Rightarrow> bool" where
  "kept st0 st =
     (source st = source st0 \<and> typeModifiers st = typeModifiers st0
      \<and> typeNames st = typeNames st0 \<and> operators st = operators st0
      \<and> precedence st = precedence st0 \<and> escapes st = escapes st0
      \<and> (\<exists>cs. comments st = comments st0 @ cs))"

definition keepsS :: "parser \<Rightarrow> parser outcome \<Rightarrow> bool" where
  "keepsS st0 a = (\<forall>st'. a = Ok st' \<longrightarrow> kept st0 st')"

definition keepsP :: "parser \<Rightarrow> ('a \<times> parser) outcome \<Rightarrow> bool" where
  "keepsP st0 a = (\<forall>x st'. a = Ok (x, st') \<longrightarrow> kept st0 st')"

section \<open>Outcomes in sequence\<close>

lemma andThen_simps [simp]:
  "andThen (Ok x) f = f x"
  "andThen (Throw e) f = Throw e"
  "andThen OutOfRange f = OutOfRange"
  "andThen OutOfFuel f = OutOfFuel"
  by (simp_all add: andThen_def)

section \<open>More fuel does not change an outcome\<close>

text \<open>
  A run that did not stop for lack of fuel has the same outcome with any larger fuel.
  The rules below follow the structure of a function body; each function then needs
  the rules and the lemmas of the functions it calls.
\<close>

lemma settled_refl: "settled a a"
  by (simp add: settled_def)

lemma settled_OutOfFuel: "settled OutOfFuel b"
  by (simp add: settled_def)

lemma settled_andThen:
  "settled a a' \<Longrightarrow> (\<And>x. settled (f x) (f' x)) \<Longrightarrow> settled (andThen a f) (andThen a' f')"
  by (cases a) (auto simp: settled_def)

lemma settled_if:
  "settled a a' \<Longrightarrow> settled b b' \<Longrightarrow> settled (if c then a else b) (if c then a' else b')"
  by simp

lemma settled_prod:
  "(\<And>x y. settled (f x y) (f' x y)) \<Longrightarrow> settled (case_prod f p) (case_prod f' p)"
  by (cases p) simp

lemma settled_let:
  "(\<And>x. settled (f x) (f' x)) \<Longrightarrow> settled (Let v f) (Let v f')"
  by simp

lemma settled_option:
  "settled a a' \<Longrightarrow> (\<And>x. settled (f x) (f' x)) \<Longrightarrow>
   settled (case_option a f v) (case_option a' f' v)"
  by (cases v) simp_all

lemma settled_bool:
  "settled a a' \<Longrightarrow> settled b b' \<Longrightarrow> settled (case_bool a b v) (case_bool a' b' v)"
  by (cases v) simp_all

lemmas settled_intros =
  settled_refl settled_andThen settled_if settled_prod settled_let settled_option settled_bool

lemma spaceLoop_settled: "settled (spaceLoop n st) (spaceLoop (n + k) st)"
proof (induction n arbitrary: st)
  case 0
  show ?case by (simp add: settled_OutOfFuel)
next
  case (Suc n)
  show ?case by (auto intro!: settled_intros Suc)
qed

lemma cursor_settled:
  "(\<forall>ws wc st. settled (next' n ws wc st) (next' (n + k) ws wc st))
 \<and> (\<forall>ws wc st. settled (nextLoop n ws wc st) (nextLoop (n + k) ws wc st))
 \<and> (\<forall>st. settled (parseComment n st) (parseComment (n + k) st))
 \<and> (\<forall>s st. settled (blockLoop n s st) (blockLoop (n + k) s st))
 \<and> (\<forall>s st. settled (inlineLoop n s st) (inlineLoop (n + k) s st))
 \<and> (\<forall>s kb st. settled (lookahead n s kb st) (lookahead (n + k) s kb st))
 \<and> (\<forall>i s st. settled (matchLoop n i s st) (matchLoop (n + k) i s st))
 \<and> (\<forall>st. settled (skipSpaces n st) (skipSpaces (n + k) st))"
proof (induction n)
  case 0
  show ?case by (simp add: settled_OutOfFuel)
next
  case (Suc n)
  have m: "settled (matchLoop (Suc n) i s st) (matchLoop (Suc (n + k)) i s st)" for i s st
    by (cases s) (auto intro!: settled_intros simp: Suc)
  show ?case
    by (auto intro!: settled_intros spaceLoop_settled simp: Suc m simp del: matchLoop.simps)
qed

lemma next_settled: "settled (next' n ws wc st) (next' (n + k) ws wc st)"
  and lookahead_settled: "settled (lookahead n s kb st) (lookahead (n + k) s kb st)"
  and skipSpaces_settled: "settled (skipSpaces n st) (skipSpaces (n + k) st)"
  using cursor_settled [of n k] by simp_all

lemmas cursor_intros = settled_intros next_settled lookahead_settled skipSpaces_settled

lemma consumeLoop_settled: "settled (consumeLoop n str s st) (consumeLoop (n + k) str s st)"
  by (induction s arbitrary: st) (auto intro!: cursor_intros)

lemma consume_settled: "settled (consume n s st) (consume (n + k) s st)"
  by (simp add: consume_def consumeLoop_settled)

lemma firstAhead_settled: "settled (firstAhead n ss st) (firstAhead (n + k) ss st)"
  by (induction ss arbitrary: st) (auto intro!: cursor_intros)

lemma identifierLoop_settled:
  "settled (identifierLoop n name st) (identifierLoop (n + k) name st)"
proof (induction n arbitrary: name st)
  case 0
  show ?case by (simp add: settled_OutOfFuel)
next
  case (Suc n)
  show ?case by (auto intro!: cursor_intros Suc)
qed

lemma parseIdentifier_settled:
  "settled (parseIdentifier n kb st) (parseIdentifier (n + k) kb st)"
  by (auto intro!: cursor_intros identifierLoop_settled simp: parseIdentifier_def)

lemma numberLoop_settled:
  "settled (numberLoop n d t v st) (numberLoop (n + k) d t v st)"
proof (induction n arbitrary: t v st)
  case 0
  show ?case by (simp add: settled_OutOfFuel)
next
  case (Suc n)
  show ?case by (auto intro!: cursor_intros Suc)
qed

lemma numberSuffix_settled:
  "settled (numberSuffix n c p x) (numberSuffix (n + k) c p x)"
  by (auto intro!: cursor_intros simp: numberSuffix_def)

lemma parseNumber_settled: "settled (parseNumber n d st) (parseNumber (n + k) d st)"
  by (auto intro!: cursor_intros numberLoop_settled numberSuffix_settled
      simp: parseNumber_def Let_def)

lemma escapeDigit_settled:
  "settled (escapeDigit n p b ds x) (escapeDigit (n + k) p b ds x)"
  by (auto intro!: cursor_intros simp: escapeDigit_def)

lemma parseEscape_settled: "settled (parseEscape n st) (parseEscape (n + k) st)"
  by (auto intro!: cursor_intros escapeDigit_settled simp: parseEscape_def)

lemma stringLoop_settled: "settled (stringLoop n s st) (stringLoop (n + k) s st)"
proof (induction n arbitrary: s st)
  case 0
  show ?case by (simp add: settled_OutOfFuel)
next
  case (Suc n)
  show ?case by (auto intro!: cursor_intros parseEscape_settled Suc)
qed

lemma parseString_settled: "settled (parseString n kb st) (parseString (n + k) kb st)"
  by (auto intro!: cursor_intros stringLoop_settled simp: parseString_def)

lemma includeLoop_settled: "settled (includeLoop n c s st) (includeLoop (n + k) c s st)"
proof (induction n arbitrary: s st)
  case 0
  show ?case by (simp add: settled_OutOfFuel)
next
  case (Suc n)
  show ?case by (auto intro!: cursor_intros Suc)
qed

lemma parseInclude_settled: "settled (parseInclude n st) (parseInclude (n + k) st)"
  by (auto intro!: cursor_intros includeLoop_settled simp: parseInclude_def)

lemma incomingLoop_settled: "settled (incomingLoop n i ss st) (incomingLoop (n + k) i ss st)"
  by (induction ss arbitrary: st) (auto intro!: cursor_intros)

lemma declarationIncoming_settled:
  "settled (declarationIncoming n st) (declarationIncoming (n + k) st)"
  by (auto intro!: cursor_intros incomingLoop_settled simp: declarationIncoming_def)

lemma scanLoop_settled: "settled (scanLoop n i ss st) (scanLoop (n + k) i ss st)"
  by (induction ss arbitrary: st) (auto intro!: cursor_intros)

lemma scanBinaryOperator_settled:
  "settled (scanBinaryOperator n st) (scanBinaryOperator (n + k) st)"
  by (simp add: scanBinaryOperator_def scanLoop_settled)

lemma modifierPass_settled:
  "settled (modifierPass n ms mods h st) (modifierPass (n + k) ms mods h st)"
  by (induction ms arbitrary: mods h st) (auto intro!: cursor_intros)

lemma modifierLoop_settled: "settled (modifierLoop n mods st) (modifierLoop (n + k) mods st)"
proof (induction n arbitrary: mods st)
  case 0
  show ?case by (simp add: settled_OutOfFuel)
next
  case (Suc n)
  show ?case by (auto intro!: cursor_intros modifierPass_settled Suc)
qed

lemma typeNameLoop_settled: "settled (typeNameLoop n ss st) (typeNameLoop (n + k) ss st)"
  by (induction ss arbitrary: st) (auto intro!: cursor_intros)

lemma parseDeclaration_settled:
  "settled (parseDeclaration n kind st) (parseDeclaration (n + k) kind st)"
  by (auto intro!: cursor_intros modifierLoop_settled typeNameLoop_settled
        parseIdentifier_settled simp: parseDeclaration_def)

lemma parametersLoop_settled:
  "settled (parametersLoop n ps st) (parametersLoop (n + k) ps st)"
proof (induction n arbitrary: ps st)
  case 0
  show ?case by (simp add: settled_OutOfFuel)
next
  case (Suc n)
  show ?case
    by (auto intro!: cursor_intros declarationIncoming_settled parseDeclaration_settled
          consume_settled Suc)
qed

lemma parseParameters_settled: "settled (parseParameters n st) (parseParameters (n + k) st)"
  by (simp add: parseParameters_def parametersLoop_settled)

lemmas lexical_intros = cursor_intros consume_settled firstAhead_settled
  parseIdentifier_settled parseNumber_settled parseEscape_settled parseString_settled
  declarationIncoming_settled scanBinaryOperator_settled parseDeclaration_settled

lemma grammar_settled:
  "(\<forall>b st. settled (parseBody n b st) (parseBody (n + k) b st))
 \<and> (\<forall>ss st. settled (bodyLoop n ss st) (bodyLoop (n + k) ss st))
 \<and> (\<forall>st. settled (parseStatement n st) (parseStatement (n + k) st))
 \<and> (\<forall>d g st. settled (parseDefinition n d g st) (parseDefinition (n + k) d g st))
 \<and> (\<forall>l a st. settled (lengthLoop n l a st) (lengthLoop (n + k) l a st))
 \<and> (\<forall>e st. settled (parseExpression n e st) (parseExpression (n + k) e st))
 \<and> (\<forall>l m st. settled (parseBinary n l m st) (parseBinary (n + k) l m st))
 \<and> (\<forall>l m a st. settled (binaryLoop n l m a st) (binaryLoop (n + k) l m a st))
 \<and> (\<forall>r op a st. settled (rightLoop n r op a st) (rightLoop (n + k) r op a st))
 \<and> (\<forall>st. settled (parseUnary n st) (parseUnary (n + k) st))
 \<and> (\<forall>ix st. settled (indexLoop n ix st) (indexLoop (n + k) ix st))
 \<and> (\<forall>xs st. settled (expressionList n xs st) (expressionList (n + k) xs st))
 \<and> (\<forall>st. settled (parseLiteral n st) (parseLiteral (n + k) st))"
proof (induction n)
  case 0
  show ?case by (simp add: settled_OutOfFuel)
next
  case (Suc n)
  have d: "settled (parseDefinition (Suc n) d g st) (parseDefinition (Suc (n + k)) d g st)"
    for d g st
    by (cases d) (auto intro!: lexical_intros simp: Suc Let_def)
  show ?case
    by (auto intro!: lexical_intros simp: Suc d simp del: parseDefinition.simps)
qed

lemma parseBody_settled: "settled (parseBody n b st) (parseBody (n + k) b st)"
  and parseStatement_settled: "settled (parseStatement n st) (parseStatement (n + k) st)"
  and parseDefinition_settled:
    "settled (parseDefinition n d g st) (parseDefinition (n + k) d g st)"
  and parseExpression_settled:
    "settled (parseExpression n e st) (parseExpression (n + k) e st)"
  and expressionList_settled:
    "settled (expressionList n xs st) (expressionList (n + k) xs st)"
  and parseLiteral_settled: "settled (parseLiteral n st) (parseLiteral (n + k) st)"
  using grammar_settled [of n k] by simp_all

lemmas grammar_intros = lexical_intros parseBody_settled parseStatement_settled
  parseDefinition_settled parseExpression_settled expressionList_settled
  parseLiteral_settled parseInclude_settled parseParameters_settled

lemma parseFunction_settled: "settled (parseFunction n d st) (parseFunction (n + k) d st)"
  by (cases d) (auto intro!: grammar_intros)

lemma parsePredefine_settled: "settled (parsePredefine n st) (parsePredefine (n + k) st)"
  by (auto intro!: grammar_intros simp: parsePredefine_def)

lemma topLevel_settled: "settled (topLevel n st) (topLevel (n + k) st)"
  by (auto intro!: grammar_intros parseFunction_settled parsePredefine_settled
      simp: topLevel_def)

lemma parseLoop_settled: "settled (parseLoop n ss st) (parseLoop (n + k) ss st)"
proof (induction n arbitrary: ss st)
  case 0
  show ?case by (simp add: settled_OutOfFuel)
next
  case (Suc n)
  show ?case by (auto intro!: grammar_intros topLevel_settled Suc simp: Let_def)
qed

lemma parse_settled: "settled (parse n st) (parse (n + k) st)"
  by (auto intro!: grammar_intros parseLoop_settled simp: parse_def)

lemma primed_settled: "settled (primed n src) (primed (n + k) src)"
  by (simp add: primed_def next_settled)

lemma statementOf_settled: "settled (statementOf n src) (statementOf (n + k) src)"
  by (auto intro!: grammar_intros primed_settled simp: statementOf_def)

lemma expressionOf_settled: "settled (expressionOf n src) (expressionOf (n + k) src)"
  by (auto intro!: grammar_intros primed_settled simp: expressionOf_def)

lemma literalOf_settled: "settled (literalOf n src) (literalOf (n + k) src)"
  by (auto intro!: grammar_intros primed_settled simp: literalOf_def)

lemma lookaheadOf_settled: "settled (lookaheadOf n s src) (lookaheadOf (n + k) s src)"
  by (auto intro!: grammar_intros primed_settled simp: lookaheadOf_def)

lemma topLevelOf_settled: "settled (topLevelOf n src) (topLevelOf (n + k) src)"
  by (auto intro!: grammar_intros primed_settled topLevel_settled simp: topLevelOf_def)

lemma settled_Ok: "settled a b \<Longrightarrow> a = Ok r \<Longrightarrow> b = Ok r"
  by (simp add: settled_def)

lemma settled_Throw: "settled a b \<Longrightarrow> a = Throw e \<Longrightarrow> b = Throw e"
  by (simp add: settled_def)

lemma settled_OutOfRange: "settled a b \<Longrightarrow> a = OutOfRange \<Longrightarrow> b = OutOfRange"
  by (simp add: settled_def)

section \<open>Line numbers and messages\<close>




















































section \<open>The claims on single inputs\<close>

text \<open>
  C1 (the code differs). The claim: on the \<^verbatim>\<open>0x\<close> branch of \<^verbatim>\<open>parseLiteral\<close> the kind of
  the literal is \<open>HexNumberLiteral\<close>, with \<open>Long\<close> and \<open>Unsigned\<close> in front at most. On
  the input \<^verbatim>\<open>0x0\<close> the branch is taken and the kind is \<open>OctNumberLiteral\<close>: the test for
  a leading zero of \<^verbatim>\<open>parseNumber\<close> sees the digits without the prefix.
\<close>

theorem C1_hex_zero_is_octal:
  "literalOf (20 + k) ''0x0''
     = Ok (Literal ''OctNumberLiteral'' 1 ''0x0'', (newParser ''0x0'')\<lparr>curr := NUL, index := 3\<rparr>)"
proof -
  have "literalOf 20 ''0x0''
     = Ok (Literal ''OctNumberLiteral'' 1 ''0x0'', (newParser ''0x0'')\<lparr>curr := NUL, index := 3\<rparr>)"
    by code_simp
  then show ?thesis
    by (rule settled_Ok [OF literalOf_settled])
qed

text \<open>
  C2 (corrected). The statement \<^verbatim>\<open>if (a) b(); else c();\<close> parses to an \<open>IfStatement\<close>
  with the condition \<open>a\<close> and two inline bodies, each one expression statement with a
  call of \<open>b\<close> and of \<open>c\<close>; the arguments of each call are not the empty list, as the
  claim has it, but the list of one null: the loop over the arguments parses an
  expression before it looks for the closing parenthesis.
\<close>

theorem C2_if_else_calls:
  "statementOf (20 + k) ''if (a) b(); else c();''
     = Ok (IfStatement 1 (Identifier 1 ''a'')
             (BodyStatement ''InlineStatement'' 1
                (Arr [ExpressionStatement 1 (CallExpression 1 (Identifier 1 ''b'') (Arr [Null]))]))
             (BodyStatement ''InlineStatement'' 1
                (Arr [ExpressionStatement 1 (CallExpression 1 (Identifier 1 ''c'') (Arr [Null]))])),
           (newParser ''if (a) b(); else c();'')\<lparr>curr := NUL, index := 21\<rparr>)"
proof -
  have "statementOf 20 ''if (a) b(); else c();''
     = Ok (IfStatement 1 (Identifier 1 ''a'')
             (BodyStatement ''InlineStatement'' 1
                (Arr [ExpressionStatement 1 (CallExpression 1 (Identifier 1 ''b'') (Arr [Null]))]))
             (BodyStatement ''InlineStatement'' 1
                (Arr [ExpressionStatement 1 (CallExpression 1 (Identifier 1 ''c'') (Arr [Null]))])),
           (newParser ''if (a) b(); else c();'')\<lparr>curr := NUL, index := 21\<rparr>)"
    by code_simp
  then show ?thesis
    by (rule settled_Ok [OF statementOf_settled])
qed

theorem C2_empty_arguments_counterexample:
  "nodeOf (statementOf 20 ''if (a) b(); else c();'')
     \<noteq> Ok (IfStatement 1 (Identifier 1 ''a'')
             (BodyStatement ''InlineStatement'' 1
                (Arr [ExpressionStatement 1 (CallExpression 1 (Identifier 1 ''b'') (Arr []))]))
             (BodyStatement ''InlineStatement'' 1
                (Arr [ExpressionStatement 1 (CallExpression 1 (Identifier 1 ''c'') (Arr []))])))"
  by code_simp

text \<open>
  C3 (the code differs). The claim: \<^verbatim>\<open>lookahead\<close> of an identifier lexeme answers false
  when an identifier-body character follows the match, so that no identifier that
  begins with \<^verbatim>\<open>if\<close> is taken for the keyword. The test of \<^verbatim>\<open>lookahead\<close> is
  \<^verbatim>\<open>isIdentifierStart\<close>, which a digit fails: on \<^verbatim>\<open>if0 = 1;\<close> the match of \<^verbatim>\<open>if\<close> succeeds
  and \<^verbatim>\<open>parseStatement\<close> throws in its \<open>IfStatement\<close> branch, although
  \<^verbatim>\<open>parseIdentifier\<close> reads \<^verbatim>\<open>if0\<close> as one identifier.
\<close>

theorem C3_keyword_before_digit:
  "lookaheadOf (20 + k) ''if'' ''if0 = 1;''
     = Ok (True, (newParser ''if0 = 1;'')\<lparr>curr := CHR ''0'', index := 2\<rparr>)
   \<and> statementOf (20 + k) ''if0 = 1;'' = Throw ''Line number 1: Expect (''
   \<and> expressionOf (20 + k) ''if0''
       = Ok (Identifier 1 ''if0'', (newParser ''if0'')\<lparr>curr := NUL, index := 3\<rparr>)"
proof -
  have "lookaheadOf 20 ''if'' ''if0 = 1;''
     = Ok (True, (newParser ''if0 = 1;'')\<lparr>curr := CHR ''0'', index := 2\<rparr>)"
    by code_simp
  then have 1: "lookaheadOf (20 + k) ''if'' ''if0 = 1;''
     = Ok (True, (newParser ''if0 = 1;'')\<lparr>curr := CHR ''0'', index := 2\<rparr>)"
    by (rule settled_Ok [OF lookaheadOf_settled])
  have "statementOf 20 ''if0 = 1;'' = Throw ''Line number 1: Expect (''"
    by code_simp
  then have 2: "statementOf (20 + k) ''if0 = 1;'' = Throw ''Line number 1: Expect (''"
    by (rule settled_Throw [OF statementOf_settled])
  have "expressionOf 20 ''if0''
       = Ok (Identifier 1 ''if0'', (newParser ''if0'')\<lparr>curr := NUL, index := 3\<rparr>)"
    by code_simp
  then have 3: "expressionOf (20 + k) ''if0''
       = Ok (Identifier 1 ''if0'', (newParser ''if0'')\<lparr>curr := NUL, index := 3\<rparr>)"
    by (rule settled_Ok [OF expressionOf_settled])
  from 1 2 3 show ?thesis by simp
qed

text \<open>
  C4 (the code differs). The claim: every comment of the source is once in the tree.
  In \<^verbatim>\<open>int/*c*/ a;\<close> the comment follows the type name; \<^verbatim>\<open>declarationIncoming\<close> reads
  it, puts it in the queue and moves the cursor back, \<^verbatim>\<open>parseDeclaration\<close> reads it
  again: the program has the comment twice.
\<close>

theorem C4_comment_twice:
  "parse (20 + k) (newParser ''int/*c*/ a;'')
     = Ok (Program (Arr [Definition ''GlobalVariableDeclaration'' 1 (Identifier 1 ''a'')
                           (Type 1 [] ''int'') Null Null,
                         Comment ''BlockComment'' 1 ''c'',
                         Comment ''BlockComment'' 1 ''c'']),
           (newParser ''int/*c*/ a;'')\<lparr>curr := NUL, index := 11\<rparr>)"
proof -
  have "parse 20 (newParser ''int/*c*/ a;'')
     = Ok (Program (Arr [Definition ''GlobalVariableDeclaration'' 1 (Identifier 1 ''a'')
                           (Type 1 [] ''int'') Null Null,
                         Comment ''BlockComment'' 1 ''c'',
                         Comment ''BlockComment'' 1 ''c'']),
           (newParser ''int/*c*/ a;'')\<lparr>curr := NUL, index := 11\<rparr>)"
    by code_simp
  then show ?thesis
    by (rule settled_Ok [OF parse_settled])
qed

text \<open>
  C5. The input \<^verbatim>\<open>int a, b = 1;\<close>: the first round of \<^verbatim>\<open>parse\<close> returns the declaration
  of \<open>a\<close> and leaves the source with \<^verbatim>\<open>int\<close> in the place of the comma, the cursor on
  it and \<^verbatim>\<open>curr\<close> still the comma; \<^verbatim>\<open>parse\<close> returns the program of the declaration of
  \<open>a\<close> and the definition of \<open>b\<close> with the value \<open>1\<close>, both global and of type \<^verbatim>\<open>int\<close>.
\<close>

theorem C5_two_declarators:
  "topLevelOf (20 + k) ''int a, b = 1;''
     = Ok (Definition ''GlobalVariableDeclaration'' 1 (Identifier 1 ''a'') (Type 1 [] ''int'')
             Null Null,
           (newParser ''int aint b = 1;'')\<lparr>curr := CHR '','', index := 5\<rparr>)
   \<and> parse (20 + k) (newParser ''int a, b = 1;'')
     = Ok (Program (Arr [Definition ''GlobalVariableDeclaration'' 1 (Identifier 1 ''a'')
                           (Type 1 [] ''int'') Null Null,
                         Definition ''GlobalVariableDefinition'' 1 (Identifier 1 ''b'')
                           (Type 1 [] ''int'') Null (Literal ''NumberLiteral'' 1 ''1'')]),
           (newParser ''int aint b = 1;'')\<lparr>curr := NUL, index := 15\<rparr>)"
proof -
  have "topLevelOf 20 ''int a, b = 1;''
     = Ok (Definition ''GlobalVariableDeclaration'' 1 (Identifier 1 ''a'') (Type 1 [] ''int'')
             Null Null,
           (newParser ''int aint b = 1;'')\<lparr>curr := CHR '','', index := 5\<rparr>)"
    by code_simp
  then have 1: "topLevelOf (20 + k) ''int a, b = 1;''
     = Ok (Definition ''GlobalVariableDeclaration'' 1 (Identifier 1 ''a'') (Type 1 [] ''int'')
             Null Null,
           (newParser ''int aint b = 1;'')\<lparr>curr := CHR '','', index := 5\<rparr>)"
    by (rule settled_Ok [OF topLevelOf_settled])
  have "parse 20 (newParser ''int a, b = 1;'')
     = Ok (Program (Arr [Definition ''GlobalVariableDeclaration'' 1 (Identifier 1 ''a'')
                           (Type 1 [] ''int'') Null Null,
                         Definition ''GlobalVariableDefinition'' 1 (Identifier 1 ''b'')
                           (Type 1 [] ''int'') Null (Literal ''NumberLiteral'' 1 ''1'')]),
           (newParser ''int aint b = 1;'')\<lparr>curr := NUL, index := 15\<rparr>)"
    by code_simp
  then have 2: "parse (20 + k) (newParser ''int a, b = 1;'')
     = Ok (Program (Arr [Definition ''GlobalVariableDeclaration'' 1 (Identifier 1 ''a'')
                           (Type 1 [] ''int'') Null Null,
                         Definition ''GlobalVariableDefinition'' 1 (Identifier 1 ''b'')
                           (Type 1 [] ''int'') Null (Literal ''NumberLiteral'' 1 ''1'')]),
           (newParser ''int aint b = 1;'')\<lparr>curr := NUL, index := 15\<rparr>)"
    by (rule settled_Ok [OF parse_settled])
  from 1 2 show ?thesis by simp
qed

text \<open>
  C7. The input \<^verbatim>\<open>unsigned long x = 1L;\<close>: no type name follows the two modifiers, so
  the last of them is the name of the type; the value is the long number \<^verbatim>\<open>1L\<close>.
\<close>

theorem C7_last_modifier_is_type:
  "parse (20 + k) (newParser ''unsigned long x = 1L;'')
     = Ok (Program (Arr [Definition ''GlobalVariableDefinition'' 1 (Identifier 1 ''x'')
                           (Type 1 [''unsigned''] ''long'') Null
                           (Literal ''LongNumberLiteral'' 1 ''1L'')]),
           (newParser ''unsigned long x = 1L;'')\<lparr>curr := NUL, index := 21\<rparr>)"
proof -
  have "parse 20 (newParser ''unsigned long x = 1L;'')
     = Ok (Program (Arr [Definition ''GlobalVariableDefinition'' 1 (Identifier 1 ''x'')
                           (Type 1 [''unsigned''] ''long'') Null
                           (Literal ''LongNumberLiteral'' 1 ''1L'')]),
           (newParser ''unsigned long x = 1L;'')\<lparr>curr := NUL, index := 21\<rparr>)"
    by code_simp
  then show ?thesis
    by (rule settled_Ok [OF parse_settled])
qed

text \<open>
  C9 (the code differs). The claim: \<^verbatim>\<open>next\<close> and \<^verbatim>\<open>parse\<close> terminate on every input, also
  on a comment that the input does not close. The two loops of \<^verbatim>\<open>parseComment\<close> test
  for the end of the comment only: on \<^verbatim>\<open>/*\<close> and on \<^verbatim>\<open>//x\<close> the cursor leaves the
  buffer, and with no fuel does the priming \<^verbatim>\<open>next()\<close> of \<^verbatim>\<open>parse\<close> return.
\<close>

theorem C9_unclosed_comment:
  "primed (20 + k) ''/*'' = OutOfRange \<and> primed (20 + k) ''//x'' = OutOfRange
   \<and> parse (20 + k) (newParser ''/*'') = OutOfRange
   \<and> parse (20 + k) (newParser ''//x'') = OutOfRange
   \<and> (\<forall>n st. primed n ''/*'' \<noteq> Ok st) \<and> (\<forall>n st. primed n ''//x'' \<noteq> Ok st)"
proof -
  have "primed 20 ''/*'' = OutOfRange"
    by code_simp
  then have 1: "primed (20 + j) ''/*'' = OutOfRange" for j
    by (rule settled_OutOfRange [OF primed_settled])
  have "primed 20 ''//x'' = OutOfRange"
    by code_simp
  then have 2: "primed (20 + j) ''//x'' = OutOfRange" for j
    by (rule settled_OutOfRange [OF primed_settled])
  have 3: "parse (20 + k) (newParser ''/*'') = OutOfRange"
    using 1 [of k] by (simp add: parse_def primed_def)
  have 4: "parse (20 + k) (newParser ''//x'') = OutOfRange"
    using 2 [of k] by (simp add: parse_def primed_def)
  have 5: "primed n ''/*'' \<noteq> Ok st" for n st
  proof
    assume "primed n ''/*'' = Ok st"
    then have "primed (n + 20) ''/*'' = Ok st"
      by (rule settled_Ok [OF primed_settled])
    with 1 [of n] show False by (simp add: add.commute)
  qed
  have 6: "primed n ''//x'' \<noteq> Ok st" for n st
  proof
    assume "primed n ''//x'' = Ok st"
    then have "primed (n + 20) ''//x'' = Ok st"
      by (rule settled_Ok [OF primed_settled])
    with 2 [of n] show False by (simp add: add.commute)
  qed
  from 1 [of k] 2 [of k] 3 4 5 6 show ?thesis by simp
qed








section \<open>What the cursor leaves as it is\<close>





lemma keeps_simps [simp]:
  "keepsS st0 (Ok st) = kept st0 st"
  "keepsS st0 (Throw e)"
  "keepsS st0 OutOfRange"
  "keepsS st0 OutOfFuel"
  "keepsP st0 (Ok (x, st)) = kept st0 st"
  "keepsP st0 (Throw e)"
  "keepsP st0 OutOfRange"
  "keepsP st0 OutOfFuel"
  by (simp_all add: keepsS_def keepsP_def)





















end
